theory Spec2Isabelle
  imports Complex_Main "HOL-Library.AList"
begin

section \<open>The flag catalog and setter (toggle-flags.py)\<close>

text \<open>
  The values a variant name stands for on the wire are Python literals: \<open>True\<close>/\<open>False\<close>,
  integers such as \<open>100\<close>, and decimal literals such as \<open>0.95\<close>. No arithmetic is ever done
  on them, so a decimal literal is kept as the rational number it denotes.
\<close>

datatype pyval = PyBool bool | PyInt int | PyFloat rat

definition DEFAULT_BASE_URL :: string where
  "DEFAULT_BASE_URL = ''http://localhost:8080/feature/api''"

definition boolean_flags :: "string list" where
  "boolean_flags =
     [''productCatalogFailure'', ''recommendationCacheFailure'', ''adManualGc'',
      ''adHighCpu'', ''adFailure'', ''cartFailure'', ''paymentUnreachable'']"

definition numeric_flags :: "string list" where
  "numeric_flags = [''kafkaQueueProblems'', ''loadGeneratorFloodHomepage'']"

text \<open>
  A Python dict literal with distinct keys is an association list in the order written;
  \<open>d.get(k)\<close> is \<open>map_of d k\<close>, with \<open>None\<close> for a missing key.
\<close>

definition payment_variant_map :: "(string \<times> pyval) list" where
  "payment_variant_map =
     [(''100%'', PyInt 1),
      (''90%'', PyFloat (95 / 100)),
      (''75%'', PyFloat (75 / 100)),
      (''50%'', PyFloat (5 / 10)),
      (''25%'', PyFloat (25 / 100)),
      (''10%'', PyFloat (1 / 10)),
      (''off'', PyInt 0)]"

definition image_variant_map :: "(string \<times> pyval) list" where
  "image_variant_map = [(''10sec'', PyInt 10000), (''5sec'', PyInt 5000), (''off'', PyInt 0)]"

text \<open>\<open>get_variant_value\<close>: the function returns \<open>None\<close> for "invalid"; its caller tests
  \<open>is None\<close>, so the falsy values \<open>False\<close> and \<open>0\<close> of "off" are ordinary results.\<close>

definition get_variant_value :: "string \<Rightarrow> string \<Rightarrow> pyval option" where
  "get_variant_value flag_name variant =
     (if flag_name \<in> set boolean_flags then
        (if variant = ''on'' then Some (PyBool True)
         else if variant = ''off'' then Some (PyBool False)
         else None)
      else if flag_name \<in> set numeric_flags then
        (if variant = ''on'' then Some (PyInt 100)
         else if variant = ''off'' then Some (PyInt 0)
         else None)
      else if flag_name = ''paymentFailure'' then map_of payment_variant_map variant
      else if flag_name = ''imageSlowLoad'' then map_of image_variant_map variant
      else None)"

definition get_all_variants :: "string \<Rightarrow> (string \<times> pyval) list" where
  "get_all_variants flag_name =
     (if flag_name \<in> set boolean_flags then [(''on'', PyBool True), (''off'', PyBool False)]
      else if flag_name \<in> set numeric_flags then [(''on'', PyInt 100), (''off'', PyInt 0)]
      else if flag_name = ''paymentFailure'' then
        [(''100%'', PyInt 1),
         (''90%'', PyFloat (95 / 100)),
         (''75%'', PyFloat (75 / 100)),
         (''50%'', PyFloat (5 / 10)),
         (''25%'', PyFloat (25 / 100)),
         (''10%'', PyFloat (1 / 10)),
         (''off'', PyInt 0)]
      else if flag_name = ''imageSlowLoad'' then
        [(''10sec'', PyInt 10000), (''5sec'', PyInt 5000), (''off'', PyInt 0)]
      else [])"

definition descriptions :: "(string \<times> string) list" where
  "descriptions =
     [(''productCatalogFailure'', ''Fail product catalog service on a specific product''),
      (''recommendationCacheFailure'', ''Fail recommendation service cache''),
      (''adManualGc'', ''Triggers full manual garbage collections in the ad service''),
      (''adHighCpu'', ''Triggers high cpu load in the ad service''),
      (''adFailure'', ''Fail ad service''),
      (''kafkaQueueProblems'',
        ''Overloads Kafka queue while simultaneously introducing a consumer side delay leading to a lag spike''),
      (''cartFailure'', ''Fail cart service''),
      (''paymentFailure'', ''Fail payment service charge requests n%''),
      (''paymentUnreachable'', ''Payment service is unavailable''),
      (''loadGeneratorFloodHomepage'', ''Flood the frontend with a large amount of requests.''),
      (''imageSlowLoad'', ''slow loading images in the frontend'')]"

definition get_flag_description :: "string \<Rightarrow> string" where
  "get_flag_description flag_name =
     (case map_of descriptions flag_name of None \<Rightarrow> [] | Some d \<Rightarrow> d)"

definition all_flags :: "string list" where
  "all_flags =
     [''productCatalogFailure'', ''recommendationCacheFailure'', ''adManualGc'',
      ''adHighCpu'', ''adFailure'', ''kafkaQueueProblems'', ''cartFailure'',
      ''paymentFailure'', ''paymentUnreachable'', ''loadGeneratorFloodHomepage'',
      ''imageSlowLoad'']"

text \<open>One entry of the \<open>flags\<close> dict of the payload, and the payload
  \<open>{"data": {"$schema": ..., "flags": flags}}\<close> itself.\<close>

record flag_entry =
  fe_description :: string
  fe_state :: string
  fe_variants :: "(string \<times> pyval) list"
  fe_defaultVariant :: string

record flag_document =
  doc_schema :: string
  doc_flags :: "(string \<times> flag_entry) list"

text \<open>The body of the \<open>for flag_name in all_flags\<close> loop: the entry stored under
  \<open>flag_name\<close>.\<close>

definition flag_entry_for :: "string \<Rightarrow> string \<Rightarrow> string \<Rightarrow> flag_entry" where
  "flag_entry_for target_flag target_variant flag_name =
     \<lparr> fe_description = get_flag_description flag_name,
       fe_state = ''ENABLED'',
       fe_variants = get_all_variants flag_name,
       fe_defaultVariant =
         (if flag_name = target_flag then target_variant
          else if flag_name = ''productCatalogFailure'' then ''on''
          else ''off'') \<rparr>"

text \<open>\<open>flags[flag_name] = ...\<close> on an insertion-ordered dict is \<open>AList.update\<close>: an
  existing key keeps its place, a new key goes to the end.\<close>

definition construct_json :: "string \<Rightarrow> string \<Rightarrow> flag_document" where
  "construct_json target_flag target_variant =
     \<lparr> doc_schema = ''https://flagd.dev/schema/v0/flags.json'',
       doc_flags =
         foldl (\<lambda>flags flag_name.
                  AList.update flag_name (flag_entry_for target_flag target_variant flag_name) flags)
               [] all_flags \<rparr>"

text \<open>
  \<open>set_flag\<close> of toggle-flags.py. What \<open>requests.post\<close> does is the environment's part: it
  returns a response with a status code and a body, or raises. The model takes that outcome
  as an argument and returns the function's result together with the trace of what it
  printed and sent, in order. \<open>HttpPost\<close> is the call of \<open>requests.post\<close>, with the URL
  and the payload.
\<close>

datatype http_outcome =
    Response nat string
  | RequestException string
  | OtherException string

datatype setter_event =
    PrintInvalid string string
  | ShowUsage
  | PrintSetting string string
  | HttpPost string flag_document
  | PrintSuccess string string
  | PrintHttpFailure nat string
  | PrintConnectFailure string string
  | PrintError string

definition set_flag ::
  "string \<Rightarrow> http_outcome \<Rightarrow> string \<Rightarrow> string \<Rightarrow> bool \<times> setter_event list" where
  "set_flag BASE_URL outcome flag_name variant =
     (case get_variant_value flag_name variant of
        None \<Rightarrow> (False, [PrintInvalid flag_name variant, ShowUsage])
      | Some variant_value \<Rightarrow>
          (let json_payload = construct_json flag_name variant;
               post = HttpPost (BASE_URL @ ''/write-to-file'') json_payload
           in case outcome of
                Response status_code body \<Rightarrow>
                  (if status_code \<in> set [200, 201]
                   then (True, [PrintSetting flag_name variant, post,
                                PrintSuccess flag_name variant])
                   else (False, [PrintSetting flag_name variant, post,
                                 PrintHttpFailure status_code body]))
              | RequestException e \<Rightarrow>
                  (False, [PrintSetting flag_name variant, post,
                           PrintConnectFailure e BASE_URL])
              | OtherException e \<Rightarrow>
                  (False, [PrintSetting flag_name variant, post, PrintError e])))"

definition is_http_post :: "setter_event \<Rightarrow> bool" where
  "is_http_post e = (case e of HttpPost url payload \<Rightarrow> True | _ \<Rightarrow> False)"

section \<open>The chaos driver (chaos-scheduler.py)\<close>

subsection \<open>Interval strings\<close>

text \<open>
  Strings are lists of 8-bit characters; the interval argument is taken to be ASCII.
  \<open>re.match(r'(\d+)([a-zA-Z]+)', s)\<close> matches at the start of \<open>s\<close> only and does not
  look at what follows the match. Both groups are greedy and the two character classes
  are disjoint, so group 1 is the longest run of digits at the start and group 2 the
  longest run of letters after it; there is a match exactly when both are non-empty.
\<close>

definition is_digit :: "char \<Rightarrow> bool" where
  "is_digit c = (c \<in> set ''0123456789'')"

definition is_alpha :: "char \<Rightarrow> bool" where
  "is_alpha c =
     (c \<in> set ''abcdefghijklmnopqrstuvwxyz'' \<or> c \<in> set ''ABCDEFGHIJKLMNOPQRSTUVWXYZ'')"

definition lower_char :: "char \<Rightarrow> char" where
  "lower_char c =
     (case map_of (zip ''ABCDEFGHIJKLMNOPQRSTUVWXYZ'' ''abcdefghijklmnopqrstuvwxyz'') c of
        None \<Rightarrow> c
      | Some l \<Rightarrow> l)"

definition digit_value :: "char \<Rightarrow> int" where
  "digit_value c =
     (case map_of (zip ''0123456789'' [0, 1, 2, 3, 4, 5, 6, 7, 8, 9]) c of
        None \<Rightarrow> 0
      | Some d \<Rightarrow> d)"

text \<open>\<open>int(match.group(1))\<close> on a string of decimal digits.\<close>

definition int_of_digits :: "string \<Rightarrow> int" where
  "int_of_digits ds = foldl (\<lambda>n c. 10 * n + digit_value c) 0 ds"

definition interval_match :: "string \<Rightarrow> (string \<times> string) option" where
  "interval_match interval_str =
     (let group1 = takeWhile is_digit interval_str;
          group2 = takeWhile is_alpha (dropWhile is_digit interval_str)
      in if group1 = [] \<or> group2 = [] then None else Some (group1, group2))"

definition unit_multipliers :: "(string \<times> int) list" where
  "unit_multipliers =
     [(''sec'', 1), (''second'', 1), (''seconds'', 1),
      (''min'', 60), (''minute'', 60), (''minutes'', 60),
      (''h'', 3600), (''hour'', 3600), (''hours'', 3600),
      (''day'', 86400), (''days'', 86400)]"

definition parse_interval :: "string \<Rightarrow> int" where
  "parse_interval interval_str =
     (case interval_match interval_str of
        None \<Rightarrow> 0
      | Some (group1, group2) \<Rightarrow>
          (let number = int_of_digits group1;
               unit = map lower_char group2
           in case map_of unit_multipliers unit of
                None \<Rightarrow> 0
              | Some multiplier \<Rightarrow> number * multiplier))"

subsection \<open>The pseudo-random generator\<close>

text \<open>
  Python's \<open>random\<close> module is a library, not part of this program, so the generator is
  a parameter: a state type \<open>'g\<close>, \<open>random.seed\<close>, and the primitive \<open>_randbelow\<close>
  from which the library builds the two functions the driver calls:
  \<open>randint(a, b)\<close> is \<open>a + _randbelow(b - a + 1)\<close> and \<open>choice(seq)\<close> is
  \<open>seq[_randbelow(len(seq))]\<close>. The library raises for \<open>b < a\<close> and for an empty
  sequence; the driver calls \<open>randint\<close> with an upper bound of the form \<open>max(a, ...)\<close>
  and \<open>choice\<close> on the non-empty lists of \<open>available_flags\<close>, so neither can happen.
\<close>

record 'g rng =
  rng_seed :: "int \<Rightarrow> 'g"
  rng_randbelow :: "'g \<Rightarrow> nat \<Rightarrow> nat \<times> 'g"

text \<open>The library's contract for \<open>_randbelow(n)\<close>: a value below \<open>n\<close>.\<close>

definition rng_ok :: "'g rng \<Rightarrow> bool" where
  "rng_ok R = (\<forall>g n. 0 < n \<longrightarrow> fst (rng_randbelow R g n) < n)"

definition randint :: "'g rng \<Rightarrow> 'g \<Rightarrow> int \<Rightarrow> int \<Rightarrow> int \<times> 'g" where
  "randint R g a b =
     (let (r, g') = rng_randbelow R g (nat (b - a + 1)) in (a + int r, g'))"

definition choice :: "'g rng \<Rightarrow> 'g \<Rightarrow> 'a list \<Rightarrow> 'a \<times> 'g" where
  "choice R g seq = (let (i, g') = rng_randbelow R g (length seq) in (seq ! i, g'))"

text \<open>
  A small linear congruential generator, to run the driver at concrete inputs. It stands
  in for the library's generator there; every general theorem below is about an
  arbitrary generator.
\<close>

definition lcg_next :: "int \<Rightarrow> int" where
  "lcg_next g = (1103515245 * g + 12345) mod 2147483648"

definition lcg :: "int rng" where
  "lcg = \<lparr> rng_seed = (\<lambda>a. \<bar>a\<bar>),
           rng_randbelow = (\<lambda>g n. (nat (lcg_next g div 65536 mod int n), lcg_next g)) \<rparr>"

subsection \<open>Configuration and random selection\<close>

text \<open>The fields of \<open>ChaosScheduler\<close>; \<open>executable\<close> is \<open>sys.executable\<close>.\<close>

record config =
  dry_run :: bool
  interval_seconds :: int
  seed :: "int option"
  toggle_script :: string
  base_url :: string
  executable :: string

definition available_flags :: "(string \<times> string list) list" where
  "available_flags =
     [(''productCatalogFailure'', [''on'']),
      (''recommendationCacheFailure'', [''on'']),
      (''adManualGc'', [''on'']),
      (''adHighCpu'', [''on'']),
      (''adFailure'', [''on'']),
      (''kafkaQueueProblems'', [''on'']),
      (''cartFailure'', [''on'']),
      (''paymentFailure'', [''100%'', ''90%'', ''75%'', ''50%'', ''25%'', ''10%'']),
      (''paymentUnreachable'', [''on'']),
      (''loadGeneratorFloodHomepage'', [''on'']),
      (''imageSlowLoad'', [''10sec'', ''5sec''])]"

text \<open>\<open>self.available_flags[flag_name]\<close> cannot miss: the key was just drawn from the
  dict's own keys.\<close>

definition get_random_flag_variant :: "'g rng \<Rightarrow> 'g \<Rightarrow> (string \<times> string) \<times> 'g" where
  "get_random_flag_variant R g =
     (let (flag_name, g1) = choice R g (map fst available_flags);
          (variant, g2) =
            choice R g1 (case map_of available_flags flag_name of None \<Rightarrow> [] | Some vs \<Rightarrow> vs)
      in ((flag_name, variant), g2))"

subsection \<open>Calling the setter\<close>

text \<open>
  What the driver does to the outside world is a trace of events: log lines, blocking
  sleeps, and calls of \<open>subprocess.run\<close> on the toggle script (\<open>RunProcess\<close>, with the
  command line). A log line is kept as its kind and the values printed in it; the
  timestamp and the rendering of durations are not modelled. How the call of
  \<open>subprocess.run\<close> ends is the environment's part and is an argument: the process exits
  with a return code and a stderr text, the 30-second timeout expires, or another
  exception is raised.
\<close>

datatype proc_outcome =
    Exited int string
  | TimeoutExpired
  | ProcException string

datatype log_msg =
    Starting int
  | DryRunMode
  | UsingSeed int
  | UsingRandomSeed int
  | BeginInterval nat int
  | NextTrigger int rat
  | IntervalEndedEarly
  | Trigger string string int
  | Activated string string
  | Revert string
  | Reverted string
  | Waiting int
  | EndOfInterval nat
  | DryRunWouldRun string
  | FailedToSet string string string
  | StderrError string
  | TimeoutSetting string string
  | ErrorSetting string string string

datatype event =
    Log log_msg
  | Sleep rat
  | RunProcess "string list"
  | PrintSeparator

fun join_spaces :: "string list \<Rightarrow> string" where
  "join_spaces [] = []"
| "join_spaces [x] = x"
| "join_spaces (x # y # ys) = x @ '' '' @ join_spaces (y # ys)"

definition build_cmd :: "config \<Rightarrow> string \<Rightarrow> string \<Rightarrow> string list" where
  "build_cmd cfg flag_name variant =
     [executable cfg, toggle_script cfg, flag_name, variant]
     @ (if base_url cfg \<noteq> ''http://localhost:8080/feature/api''
        then [''--base-url'', base_url cfg] else [])"

text \<open>\<open>ChaosScheduler.set_flag\<close>. The stderr text is logged stripped; the event keeps it
  as received.\<close>

definition cs_set_flag ::
  "config \<Rightarrow> proc_outcome \<Rightarrow> string \<Rightarrow> string \<Rightarrow> bool \<times> event list" where
  "cs_set_flag cfg outcome flag_name variant =
     (let cmd = build_cmd cfg flag_name variant
      in if dry_run cfg then (True, [Log (DryRunWouldRun (join_spaces cmd))])
         else
           (case outcome of
              Exited returncode stderr \<Rightarrow>
                (if returncode = 0 then (True, [RunProcess cmd])
                 else (False,
                       [RunProcess cmd, Log (FailedToSet flag_name variant (toggle_script cfg))]
                       @ (if stderr \<noteq> [] then [Log (StderrError stderr)] else [])))
            | TimeoutExpired \<Rightarrow> (False, [RunProcess cmd, Log (TimeoutSetting flag_name variant)])
            | ProcException e \<Rightarrow>
                (False, [RunProcess cmd, Log (ErrorSetting flag_name variant e)])))"

subsection \<open>The loop\<close>

text \<open>
  \<open>time.time()\<close> is read four times in an iteration of the loop. What the clock shows is
  the environment's part, so the four readings of an interval are inputs, together with
  the outcomes of the two runs of the toggle script. Readings are exact rationals (every
  float is one); the rounding of float addition is far below the one-second grain of
  \<open>int(...)\<close> and is left out.
\<close>

record interval_env =
  t_start :: rat
  t_before_wait :: rat
  t_after_wait :: rat
  t_end_check :: rat
  activate_outcome :: proc_outcome
  revert_outcome :: proc_outcome

text \<open>Python's \<open>int(x)\<close> on a float truncates towards zero.\<close>

definition py_int :: "rat \<Rightarrow> int" where
  "py_int x = (if 0 \<le> x then \<lfloor>x\<rfloor> else \<lceil>x\<rceil>)"

text \<open>What an interval drew; \<open>d_duration\<close> is \<open>None\<close> when the interval was left through
  \<open>continue\<close> before a duration was drawn.\<close>

record draws =
  d_offset :: int
  d_fault :: string
  d_variant :: string
  d_duration :: "int option"

text \<open>Lines 182-185: wait until the trigger time.\<close>

definition wait_for_trigger :: "rat \<Rightarrow> rat \<Rightarrow> event list" where
  "wait_for_trigger current_time trigger_time =
     (if current_time < trigger_time then [Sleep (trigger_time - current_time)] else [])"

text \<open>Lines 203-215: activate, and only if that succeeded hold and revert.\<close>

definition activate_hold_revert ::
  "config \<Rightarrow> proc_outcome \<Rightarrow> proc_outcome \<Rightarrow> string \<Rightarrow> string \<Rightarrow> int \<Rightarrow> event list" where
  "activate_hold_revert cfg out_activate out_revert flag_name variant flag_duration =
     (let (activated, ev_activate) = cs_set_flag cfg out_activate flag_name variant
      in if activated then
           (let (reverted, ev_revert) = cs_set_flag cfg out_revert flag_name ''off''
            in ev_activate
               @ (if \<not> dry_run cfg then [Log (Activated flag_name variant)] else [])
               @ [Sleep (of_int flag_duration), Log (Revert flag_name)]
               @ ev_revert
               @ (if reverted \<and> \<not> dry_run cfg then [Log (Reverted flag_name)] else []))
         else ev_activate)"

text \<open>Lines 217-223: wait until the end of the interval.\<close>

definition wait_for_interval_end :: "rat \<Rightarrow> rat \<Rightarrow> event list" where
  "wait_for_interval_end current_time interval_end_time =
     (if current_time < interval_end_time then
        (let wait_time = py_int (interval_end_time - current_time)
         in if wait_time > 0 then [Log (Waiting wait_time), Sleep (of_int wait_time)] else [])
      else [])"

text \<open>One iteration of \<open>while True\<close>, for the interval numbered \<open>interval_count\<close>: the
  events, the draws, and the generator afterwards.\<close>

definition chaos_interval ::
  "'g rng \<Rightarrow> config \<Rightarrow> nat \<Rightarrow> 'g \<Rightarrow> interval_env \<Rightarrow> event list \<times> draws \<times> 'g" where
  "chaos_interval R cfg interval_count g env =
     (let interval_start_time = t_start env;
          interval_end_time = interval_start_time + of_int (interval_seconds cfg);
          (random_offset, g1) = randint R g 0 (max 0 (interval_seconds cfg - 1));
          trigger_time = interval_start_time + of_int random_offset;
          ev_begin =
            [Log (BeginInterval interval_count (interval_seconds cfg)),
             Log (NextTrigger random_offset trigger_time)]
            @ wait_for_trigger (t_before_wait env) trigger_time;
          ((flag_name, variant), g2) = get_random_flag_variant R g1;
          remaining_time = py_int (interval_end_time - t_after_wait env)
      in if remaining_time \<le> 0 then
           (ev_begin @ [Log IntervalEndedEarly],
            \<lparr> d_offset = random_offset, d_fault = flag_name, d_variant = variant,
              d_duration = None \<rparr>,
            g2)
         else
           (let (flag_duration, g3) = randint R g2 1 (max 1 remaining_time)
            in (ev_begin
                @ [Log (Trigger flag_name variant flag_duration)]
                @ activate_hold_revert cfg (activate_outcome env) (revert_outcome env)
                    flag_name variant flag_duration
                @ wait_for_interval_end (t_end_check env) interval_end_time
                @ [Log (EndOfInterval interval_count), PrintSeparator],
                \<lparr> d_offset = random_offset, d_fault = flag_name, d_variant = variant,
                  d_duration = Some flag_duration \<rparr>,
                g3)))"

text \<open>
  The loop runs until the process is interrupted. A run is modelled up to that point:
  one environment record for each interval begun, in order. \<open>interval_count\<close> is the
  number of the last interval begun.
\<close>

fun chaos_intervals ::
  "'g rng \<Rightarrow> config \<Rightarrow> nat \<Rightarrow> 'g \<Rightarrow> interval_env list \<Rightarrow> event list \<times> draws list \<times> 'g" where
  "chaos_intervals R cfg interval_count g [] = ([], [], g)"
| "chaos_intervals R cfg interval_count g (env # envs) =
     (let (ev, d, g') = chaos_interval R cfg (interval_count + 1) g env;
          (evs, ds, g'') = chaos_intervals R cfg (interval_count + 1) g' envs
      in (ev @ evs, d # ds, g''))"

text \<open>\<open>chaos_loop\<close>: the start-up lines, the seeding of an unseeded run
  (\<open>randrange(2**31)\<close> is \<open>_randbelow(2**31)\<close>), then the intervals.\<close>

definition chaos_loop ::
  "'g rng \<Rightarrow> config \<Rightarrow> 'g \<Rightarrow> interval_env list \<Rightarrow> event list \<times> draws list \<times> 'g" where
  "chaos_loop R cfg g envs =
     (let ev_start =
            [Log (Starting (interval_seconds cfg))]
            @ (if dry_run cfg then [Log DryRunMode] else []);
          (ev_seed, g0) =
            (case seed cfg of
               Some s \<Rightarrow> ([Log (UsingSeed s)], g)
             | None \<Rightarrow>
                 (let (current_seed, g') = rng_randbelow R g (2 ^ 31)
                  in ([Log (UsingRandomSeed (int current_seed))],
                      rng_seed R (int current_seed))));
          (evs, ds, g_end) = chaos_intervals R cfg 0 g0 envs
      in (ev_start @ ev_seed @ evs, ds, g_end))"

text \<open>
  \<open>parse_args\<close>, after \<open>argparse\<close> has split the command line: the interval is parsed and
  checked, the options are stored, and an explicit seed seeds the generator.
  \<open>g_os\<close> is the generator as the interpreter initialised it.
\<close>

datatype startup_error = InvalidIntervalFormat string | IntervalTooShort

record cli_args =
  arg_interval :: string
  arg_dry_run :: bool
  arg_seed :: "int option"
  arg_base_url :: string

definition parse_args ::
  "'g rng \<Rightarrow> string \<Rightarrow> 'g \<Rightarrow> cli_args \<Rightarrow> startup_error + (config \<times> 'g)" where
  "parse_args R sys_executable g_os args =
     (let interval_seconds = parse_interval (arg_interval args)
      in if interval_seconds = 0 then Inl (InvalidIntervalFormat (arg_interval args))
         else if interval_seconds < 10 then Inl IntervalTooShort
         else Inr (\<lparr> dry_run = arg_dry_run args,
                      interval_seconds = interval_seconds,
                      seed = arg_seed args,
                      toggle_script = ''./toggle-flags.py'',
                      base_url = arg_base_url args,
                      executable = sys_executable \<rparr>,
                   (case arg_seed args of None \<Rightarrow> g_os | Some s \<Rightarrow> rng_seed R s)))"

text \<open>\<open>run\<close>: \<open>parse_args\<close>, then the loop. (\<open>validate_toggle_script\<close> between the two
  draws nothing from the generator and is left out.)\<close>

definition run ::
  "'g rng \<Rightarrow> string \<Rightarrow> 'g \<Rightarrow> cli_args \<Rightarrow> interval_env list
     \<Rightarrow> startup_error + (event list \<times> draws list \<times> 'g)" where
  "run R sys_executable g_os args envs =
     (case parse_args R sys_executable g_os args of
        Inl e \<Rightarrow> Inl e
      | Inr (cfg, g) \<Rightarrow> Inr (chaos_loop R cfg g envs))"

subsection \<open>Views of a trace\<close>

definition is_run_process :: "event \<Rightarrow> bool" where
  "is_run_process e = (case e of RunProcess cmd \<Rightarrow> True | _ \<Rightarrow> False)"

definition is_sleep :: "event \<Rightarrow> bool" where
  "is_sleep e = (case e of Sleep d \<Rightarrow> True | _ \<Rightarrow> False)"

definition is_failure_log :: "event \<Rightarrow> bool" where
  "is_failure_log e =
     (case e of
        Log (FailedToSet f v s) \<Rightarrow> True
      | Log (TimeoutSetting f v) \<Rightarrow> True
      | Log (ErrorSetting f v x) \<Rightarrow> True
      | _ \<Rightarrow> False)"

text \<open>The schedule a trace carries out: its sleeps, and the setter command lines it runs
  or, in a dry run, reports.\<close>

datatype schedule_step = Slept rat | SetterCall string

fun schedule_view :: "event list \<Rightarrow> schedule_step list" where
  "schedule_view [] = []"
| "schedule_view (Sleep d # es) = Slept d # schedule_view es"
| "schedule_view (RunProcess cmd # es) = SetterCall (join_spaces cmd) # schedule_view es"
| "schedule_view (Log (DryRunWouldRun cmd_str) # es) = SetterCall cmd_str # schedule_view es"
| "schedule_view (e # es) = schedule_view es"

text \<open>The whole seconds left in the interval when the flag has been picked: the value of
  \<open>remaining_time\<close> in \<open>chaos_interval\<close>.\<close>

definition remaining_time_of :: "config \<Rightarrow> interval_env \<Rightarrow> int" where
  "remaining_time_of cfg env =
     py_int (t_start env + of_int (interval_seconds cfg) - t_after_wait env)"

text \<open>An environment in which both runs of the toggle script exit with code 0.\<close>

definition all_succeed :: "interval_env \<Rightarrow> interval_env" where
  "all_succeed env = env\<lparr> activate_outcome := Exited 0 [], revert_outcome := Exited 0 [] \<rparr>"

subsection \<open>The catalog as the specification tabulates it\<close>

text \<open>
  The specification's table of known faults: identifier, active variants, wire values.
  In addition every fault supports "off", mapping to \<open>false\<close> or \<open>0\<close> according to the type
  of its values.
\<close>

definition catalog_table :: "(string \<times> (string \<times> pyval) list) list" where
  "catalog_table =
     [(''productCatalogFailure'', [(''on'', PyBool True)]),
      (''recommendationCacheFailure'', [(''on'', PyBool True)]),
      (''adManualGc'', [(''on'', PyBool True)]),
      (''adHighCpu'', [(''on'', PyBool True)]),
      (''adFailure'', [(''on'', PyBool True)]),
      (''kafkaQueueProblems'', [(''on'', PyInt 100)]),
      (''cartFailure'', [(''on'', PyBool True)]),
      (''paymentFailure'',
         [(''100%'', PyInt 1), (''90%'', PyFloat (95 / 100)), (''75%'', PyFloat (75 / 100)),
          (''50%'', PyFloat (5 / 10)), (''25%'', PyFloat (25 / 100)),
          (''10%'', PyFloat (1 / 10))]),
      (''paymentUnreachable'', [(''on'', PyBool True)]),
      (''loadGeneratorFloodHomepage'', [(''on'', PyInt 100)]),
      (''imageSlowLoad'', [(''10sec'', PyInt 10000), (''5sec'', PyInt 5000)])]"

fun off_value :: "(string \<times> pyval) list \<Rightarrow> pyval" where
  "off_value ((name, PyBool b) # rest) = PyBool False"
| "off_value active = PyInt 0"

definition catalog_lookup :: "string \<Rightarrow> string \<Rightarrow> pyval option" where
  "catalog_lookup fault variant =
     (case map_of catalog_table fault of
        None \<Rightarrow> None
      | Some active \<Rightarrow>
          (if variant = ''off'' then Some (off_value active) else map_of active variant))"

subsection \<open>Concrete runs\<close>

text \<open>
  A run of \<open>chaos-scheduler.py 10sec --seed 42\<close> whose first interval starts when the
  clock shows 1000. In \<open>env_on_time\<close> the clock is read one millisecond after the trigger
  time; in \<open>env_delayed\<close> the process was held up and the same reading comes a second and
  a half after it. In \<open>env_activation_fails\<close> the toggle script exits with code 1 on
  activation.
\<close>

definition example_args :: cli_args where
  "example_args =
     \<lparr> arg_interval = ''10sec'', arg_dry_run = False, arg_seed = Some 42,
       arg_base_url = ''http://localhost:8080/feature/api'' \<rparr>"

definition example_config :: config where
  "example_config =
     \<lparr> dry_run = False, interval_seconds = 10, seed = Some 42,
       toggle_script = ''./toggle-flags.py'',
       base_url = ''http://localhost:8080/feature/api'',
       executable = ''python'' \<rparr>"

definition env_on_time :: interval_env where
  "env_on_time =
     \<lparr> t_start = 1000, t_before_wait = 1000, t_after_wait = 1001 + 1 / 1000,
       t_end_check = 1007 + 1 / 10,
       activate_outcome = Exited 0 [], revert_outcome = Exited 0 [] \<rparr>"

definition env_delayed :: interval_env where
  "env_delayed =
     \<lparr> t_start = 1000, t_before_wait = 1000, t_after_wait = 1002 + 1 / 2,
       t_end_check = 1005 + 6 / 10,
       activate_outcome = Exited 0 [], revert_outcome = Exited 0 [] \<rparr>"

definition env_activation_fails :: interval_env where
  "env_activation_fails =
     \<lparr> t_start = 1000, t_before_wait = 1000, t_after_wait = 1001 + 1 / 1000,
       t_end_check = 1001 + 2 / 10,
       activate_outcome = Exited 1 ''connection refused'', revert_outcome = Exited 0 [] \<rparr>"

text \<open>The draws of a run, or the start-up error.\<close>

definition run_draws ::
  "'g rng \<Rightarrow> string \<Rightarrow> 'g \<Rightarrow> cli_args \<Rightarrow> interval_env list \<Rightarrow> startup_error + draws list" where
  "run_draws R sys_executable g_os args envs =
     (case run R sys_executable g_os args envs of
        Inl e \<Rightarrow> Inl e
      | Inr (evs, ds, g) \<Rightarrow> Inr ds)"

section \<open>The catalog: validation, variant tables and the document\<close>

text \<open>
  Claim C5. For every fault and variant name, \<open>get_variant_value\<close> returns what the
  specification's catalog gives: the documented wire value for a pair of the table, the
  neutral value (\<open>false\<close> or \<open>0\<close>, by the type of the fault) for "off" on a known
  fault, and \<open>None\<close> for every other pair (unknown fault, or a variant that is not in
  that fault's table). In particular paymentFailure/"90%" is 0.95, kafkaQueueProblems/"on"
  is 100 and imageSlowLoad/"5sec" is 5000.
\<close>

theorem get_variant_value_catalog:
  "get_variant_value f v = catalog_lookup f v
   \<and> get_variant_value ''paymentFailure'' ''90%'' = Some (PyFloat (95 / 100))
   \<and> get_variant_value ''kafkaQueueProblems'' ''on'' = Some (PyInt 100)
   \<and> get_variant_value ''imageSlowLoad'' ''5sec'' = Some (PyInt 5000)
   \<and> get_variant_value ''unknownFault'' ''on'' = None
   \<and> get_variant_value ''adFailure'' ''50%'' = None"
  unfolding get_variant_value_def catalog_lookup_def catalog_table_def boolean_flags_def
    numeric_flags_def payment_variant_map_def image_variant_map_def
  by simp

text \<open>
  Claim C9. The variant table that goes into the flag document agrees pointwise with the
  validation lookup: looking a variant name up in \<open>get_all_variants f\<close> gives exactly
  \<open>get_variant_value f v\<close>, so a name is a key of the table if and only if validation
  accepts it. This holds for every fault name (for an unknown one the table is empty and
  validation rejects everything).
\<close>

theorem get_all_variants_agrees:
  "map_of (get_all_variants f) v = get_variant_value f v
   \<and> (v \<in> fst ` set (get_all_variants f)) = (get_variant_value f v \<noteq> None)"
proof -
  have eq: "map_of (get_all_variants f) v = get_variant_value f v"
    unfolding get_variant_value_def get_all_variants_def boolean_flags_def numeric_flags_def
      payment_variant_map_def image_variant_map_def
    by simp
  have "(v \<in> fst ` set (get_all_variants f)) = (map_of (get_all_variants f) v \<noteq> None)"
    by (simp add: map_of_eq_None_iff)
  with eq show ?thesis by simp
qed

text \<open>
  Claim C4. For every target fault \<open>f\<close> and variant \<open>v\<close>, the document of
  \<open>construct_json f v\<close> has exactly the 11 known faults as its keys, in the order of
  \<open>all_flags\<close>, and the entry of each known fault \<open>n\<close> carries the description of \<open>n\<close>
  (there is one for each), the state "ENABLED", the full variant table of \<open>n\<close>, and as
  default variant \<open>v\<close> if \<open>n\<close> is the target, else "on" for productCatalogFailure and
  "off" for every other fault.
\<close>

theorem construct_json_document:
  "map fst (doc_flags (construct_json f v)) = all_flags
   \<and> length all_flags = 11 \<and> distinct all_flags
   \<and> (\<forall>n\<in>set all_flags.
         map_of descriptions n \<noteq> None \<and>
         map_of (doc_flags (construct_json f v)) n =
           Some \<lparr> fe_description = get_flag_description n,
                  fe_state = ''ENABLED'',
                  fe_variants = get_all_variants n,
                  fe_defaultVariant =
                    (if n = f then v
                     else if n = ''productCatalogFailure'' then ''on'' else ''off'') \<rparr>)"
  by (simp add: construct_json_def all_flags_def flag_entry_for_def descriptions_def)

theorem construct_json_document_witness:
  "map_of (doc_flags (construct_json ''paymentFailure'' ''50%'')) ''paymentFailure'' =
     Some \<lparr> fe_description = ''Fail payment service charge requests n%'',
            fe_state = ''ENABLED'',
            fe_variants =
              [(''100%'', PyInt 1), (''90%'', PyFloat (95 / 100)), (''75%'', PyFloat (75 / 100)),
               (''50%'', PyFloat (5 / 10)), (''25%'', PyFloat (25 / 100)),
               (''10%'', PyFloat (1 / 10)), (''off'', PyInt 0)],
            fe_defaultVariant = ''50%'' \<rparr>
   \<and> map_option fe_defaultVariant
         (map_of (doc_flags (construct_json ''paymentFailure'' ''50%'')) ''productCatalogFailure'')
       = Some ''on''
   \<and> map_option fe_defaultVariant
         (map_of (doc_flags (construct_json ''paymentFailure'' ''50%'')) ''adFailure'')
       = Some ''off''"
  using construct_json_document [of "''paymentFailure''" "''50%''"]
  by (simp add: all_flags_def get_flag_description_def descriptions_def get_all_variants_def
      boolean_flags_def numeric_flags_def)

text \<open>
  Claim C7. Whenever validation rejects the pair (\<open>get_variant_value\<close> returns \<open>None\<close>),
  \<open>set_flag\<close> returns failure having only printed the error and the usage text: its trace
  holds no HTTP request, whatever the service would have answered.
\<close>

theorem set_flag_invalid_no_request:
  assumes "get_variant_value flag_name variant = None"
  shows "set_flag url outcome flag_name variant =
           (False, [PrintInvalid flag_name variant, ShowUsage])
       \<and> filter is_http_post (snd (set_flag url outcome flag_name variant)) = []"
  using assms by (simp add: set_flag_def is_http_post_def)

theorem set_flag_invalid_no_request_witness:
  "get_variant_value ''unknownFault'' ''on'' = None
   \<and> set_flag DEFAULT_BASE_URL (Response 200 []) ''unknownFault'' ''on'' =
       (False, [PrintInvalid ''unknownFault'' ''on'', ShowUsage])
   \<and> filter is_http_post
         (snd (set_flag DEFAULT_BASE_URL (Response 200 []) ''unknownFault'' ''on'')) = []"
proof -
  have invalid: "get_variant_value ''unknownFault'' ''on'' = None"
    by (simp add: get_variant_value_def boolean_flags_def numeric_flags_def)
  show ?thesis
    using invalid
      set_flag_invalid_no_request [OF invalid, of DEFAULT_BASE_URL "Response 200 []"]
    by (simp add: is_http_post_def)
qed

text \<open>A valid pair, in contrast, does reach the network: the request carries the
  document built for it.\<close>

lemma set_flag_valid_posts:
  assumes "get_variant_value flag_name variant = Some value"
  shows "filter is_http_post (snd (set_flag url outcome flag_name variant)) =
           [HttpPost (url @ ''/write-to-file'') (construct_json flag_name variant)]"
  using assms
  by (simp add: set_flag_def is_http_post_def Let_def split: http_outcome.splits)

section \<open>Interval strings\<close>

lemma alpha_not_digit: "is_alpha c \<Longrightarrow> \<not> is_digit c"
  by (auto simp: is_alpha_def is_digit_def)

lemma interval_match_prefix:
  assumes ds: "ds \<noteq> []" "\<forall>c\<in>set ds. is_digit c"
      and u: "u \<noteq> []" "\<forall>c\<in>set u. is_alpha c"
      and rest: "rest = [] \<or> \<not> is_alpha (hd rest)"
  shows "interval_match (ds @ u @ rest) = Some (ds, u)"
proof -
  from u obtain c cs where ucs: "u = c # cs" and c: "is_alpha c"
    by (cases u) auto
  have nd: "\<not> is_digit c" using c by (rule alpha_not_digit)
  have tw: "takeWhile is_digit (ds @ u @ rest) = ds"
    using ds(2) nd by (simp add: ucs takeWhile_append2)
  have dw: "dropWhile is_digit (ds @ u @ rest) = u @ rest"
    using ds(2) nd by (simp add: ucs dropWhile_append2)
  have "takeWhile is_alpha rest = []"
    using rest by (cases rest) auto
  then have tu: "takeWhile is_alpha (u @ rest) = u"
    using u(2) by (simp add: takeWhile_append2)
  show ?thesis
    using ds(1) u(1) by (simp add: interval_match_def tw dw tu)
qed

text \<open>
  A digit string followed by a unit name of the table, in any mix of cases, parses to
  the number times the unit's multiplier, and so does any string that goes on after the
  unit with something that is not a letter.
\<close>

lemma parse_interval_prefix:
  assumes "ds \<noteq> []" "\<forall>c\<in>set ds. is_digit c" "\<forall>c\<in>set u. is_alpha c"
      and m: "map_of unit_multipliers (map lower_char u) = Some m"
      and rest: "rest = [] \<or> \<not> is_alpha (hd rest)"
  shows "parse_interval (ds @ u @ rest) = int_of_digits ds * m"
proof -
  have "u \<noteq> []" using m by (auto simp: unit_multipliers_def)
  then have "interval_match (ds @ u @ rest) = Some (ds, u)"
    using assms by (intro interval_match_prefix) auto
  then show ?thesis by (simp add: parse_interval_def m)
qed

lemma parse_interval_grammar:
  assumes "ds \<noteq> []" "\<forall>c\<in>set ds. is_digit c" "\<forall>c\<in>set u. is_alpha c"
      and m: "map_of unit_multipliers (map lower_char u) = Some m"
  shows "parse_interval (ds @ u) = int_of_digits ds * m"
  using parse_interval_prefix [OF assms, of "[]"] by simp

lemmas parse_interval_eval =
  parse_interval_def interval_match_def is_digit_def is_alpha_def lower_char_def
  int_of_digits_def digit_value_def unit_multipliers_def

lemma parse_interval_examples:
  "parse_interval ''15min'' = 900 \<and> parse_interval ''1h'' = 3600
   \<and> parse_interval ''2day'' = 172800 \<and> parse_interval ''30sec'' = 30
   \<and> parse_interval ''2HOURS'' = 7200 \<and> parse_interval ''fast'' = 0
   \<and> parse_interval ''15 min'' = 0 \<and> parse_interval ''15parsec'' = 0
   \<and> parse_interval ''1.5h'' = 0"
  by (simp add: parse_interval_eval)

text \<open>
  Claim C3. The claim holds for the strings of the grammar (\<open>parse_interval_grammar\<close>)
  but not for "every string of any other shape": the match is not anchored at the end
  of the string, so whatever follows the unit is ignored. "1h30min" is not of the shape
  number-unit, yet it is accepted as one hour, and "15min!" as fifteen minutes.
\<close>

theorem parse_interval_ignores_trailing_text:
  "parse_interval ''1h30min'' = 3600 \<and> parse_interval ''15min!'' = 900"
  by (simp add: parse_interval_eval)

section \<open>The generator and random selection\<close>

lemma choice_mem: "rng_ok R \<Longrightarrow> seq \<noteq> [] \<Longrightarrow> fst (choice R g seq) \<in> set seq"
  by (auto simp: choice_def rng_ok_def split: prod.splits
      dest!: spec [where x = g] spec [where x = "length seq"])

lemma randint_bounds:
  assumes "rng_ok R" "a \<le> b"
  shows "a \<le> fst (randint R g a b) \<and> fst (randint R g a b) \<le> b"
proof -
  have pos: "0 < nat (b - a + 1)" using assms(2) by simp
  have "fst (rng_randbelow R g (nat (b - a + 1))) < nat (b - a + 1)"
    using assms(1) pos unfolding rng_ok_def by blast
  then show ?thesis
    by (simp add: randint_def case_prod_beta)
qed

lemma lcg_ok: "rng_ok lcg"
  by (simp add: rng_ok_def lcg_def nat_less_iff)

text \<open>Every entry of \<open>available_flags\<close>: the lookup of its key finds it, its variant
  list is not empty, and each of its variants is accepted by the setter and is not
  "off".\<close>

lemma available_flags_all:
  "\<forall>(f, vs) \<in> set available_flags.
     map_of available_flags f = Some vs \<and> vs \<noteq> [] \<and>
     (\<forall>v \<in> set vs. get_variant_value f v \<noteq> None \<and> v \<noteq> ''off'')"
  by (simp add: available_flags_def get_variant_value_def boolean_flags_def numeric_flags_def
      payment_variant_map_def image_variant_map_def)

lemma available_flags_drawable:
  "(f, vs) \<in> set available_flags \<Longrightarrow> v \<in> set vs \<Longrightarrow>
     get_variant_value f v \<noteq> None \<and> v \<noteq> ''off''"
  using available_flags_all by blast

lemma available_flags_lookup:
  assumes "f \<in> set (map fst available_flags)"
  shows "\<exists>vs. map_of available_flags f = Some vs \<and> vs \<noteq> [] \<and> (f, vs) \<in> set available_flags"
proof -
  from assms obtain vs where "(f, vs) \<in> set available_flags" by auto
  then show ?thesis using available_flags_all by blast
qed

lemma get_random_flag_variant_mem:
  assumes "rng_ok R"
  shows "\<exists>vs. (fst (fst (get_random_flag_variant R g)), vs) \<in> set available_flags
           \<and> snd (fst (get_random_flag_variant R g)) \<in> set vs"
proof -
  define f where "f = fst (choice R g (map fst available_flags))"
  define g1 where "g1 = snd (choice R g (map fst available_flags))"
  have "map fst available_flags \<noteq> []" by (simp add: available_flags_def)
  then have "f \<in> set (map fst available_flags)"
    unfolding f_def using assms by (rule choice_mem [rotated])
  then obtain vs where vs: "map_of available_flags f = Some vs" "vs \<noteq> []"
      "(f, vs) \<in> set available_flags"
    using available_flags_lookup by blast
  have "fst (choice R g1 vs) \<in> set vs" using assms vs(2) by (rule choice_mem)
  moreover have "fst (get_random_flag_variant R g) = (f, fst (choice R g1 vs))"
    by (simp add: get_random_flag_variant_def case_prod_beta
        f_def [symmetric] g1_def [symmetric] vs(1))
  ultimately show ?thesis using vs(3) by auto
qed

text \<open>The stand-in generator on the run with seed 42 and a ten-second interval.\<close>

lemma lcg_offset: "randint lcg 42 0 9 = (1, 1250496027)"
  by (simp add: randint_def lcg_def lcg_next_def)

lemma lcg_flag:
  "choice lcg 1250496027 (map fst available_flags) = (''kafkaQueueProblems'', 1116302264)"
  by (simp add: choice_def lcg_def lcg_next_def available_flags_def)

lemma lcg_variant: "choice lcg 1116302264 [''on''] = (''on'', 1000676753)"
  by (simp add: choice_def lcg_def lcg_next_def)

lemma kafka_variants: "map_of available_flags ''kafkaQueueProblems'' = Some [''on'']"
  by (simp add: available_flags_def)

lemma lcg_flag_variant:
  "get_random_flag_variant lcg 1250496027 = ((''kafkaQueueProblems'', ''on''), 1000676753)"
  by (simp add: get_random_flag_variant_def lcg_flag kafka_variants lcg_variant)

lemma lcg_duration8: "randint lcg 1000676753 1 8 = (6, 1668674806)"
  by (simp add: randint_def lcg_def lcg_next_def)

lemma lcg_duration7: "randint lcg 1000676753 1 7 = (3, 1668674806)"
  by (simp add: randint_def lcg_def lcg_next_def)

text \<open>
  Claim C10. Every pair the driver can draw is accepted by the setter and is not "off":
  this holds for each fault of \<open>available_flags\<close> with each variant of its list, and so
  for whatever \<open>get_random_flag_variant\<close> returns, from any generator state, as long as
  the generator keeps the library's contract.
\<close>

theorem drawn_pairs_accepted:
  assumes "rng_ok R"
  shows "(\<forall>(f, vs) \<in> set available_flags.
            \<forall>v \<in> set vs. get_variant_value f v \<noteq> None \<and> v \<noteq> ''off'')
       \<and> (case fst (get_random_flag_variant R g) of
             (f, v) \<Rightarrow> get_variant_value f v \<noteq> None \<and> v \<noteq> ''off'')"
proof (intro conjI)
  show "\<forall>(f, vs) \<in> set available_flags.
          \<forall>v \<in> set vs. get_variant_value f v \<noteq> None \<and> v \<noteq> ''off''"
    using available_flags_drawable by blast
next
  obtain f v where fv: "fst (get_random_flag_variant R g) = (f, v)"
    by (cases "fst (get_random_flag_variant R g)")
  obtain vs where "(f, vs) \<in> set available_flags" "v \<in> set vs"
    using get_random_flag_variant_mem [OF assms, of g] by (auto simp: fv)
  then have "get_variant_value f v \<noteq> None \<and> v \<noteq> ''off''"
    by (rule available_flags_drawable)
  then show "case fst (get_random_flag_variant R g) of
               (f, v) \<Rightarrow> get_variant_value f v \<noteq> None \<and> v \<noteq> ''off''"
    by (simp add: fv)
qed

theorem drawn_pairs_accepted_witness:
  "rng_ok lcg
   \<and> fst (get_random_flag_variant lcg 1250496027) = (''kafkaQueueProblems'', ''on'')
   \<and> get_variant_value ''kafkaQueueProblems'' ''on'' \<noteq> None
   \<and> ''on'' \<noteq> ''off''
   \<and> get_variant_value ''paymentFailure'' ''90%'' \<noteq> None
   \<and> get_variant_value ''imageSlowLoad'' ''10sec'' \<noteq> None"
  using lcg_ok drawn_pairs_accepted [OF lcg_ok, of 1250496027]
  by (simp add: lcg_flag_variant available_flags_def)

section \<open>The loop\<close>

subsection \<open>What an interval draws\<close>

lemma floor_rat_numeral: "\<lfloor>(numeral a :: rat) / numeral b\<rfloor> = numeral a div numeral b"
  using floor_divide_of_int_eq [of "numeral a" "numeral b", where ?'a = rat] by simp


text \<open>The draws of an interval and the generator it leaves behind depend on the
  generator it starts with, the interval length and the seconds the clock leaves in the
  interval, and on nothing else: not on the outcome of any setter call, not on dry-run
  mode, not on the other clock readings.\<close>

lemma chaos_interval_draws_cong:
  assumes "interval_seconds cfg' = interval_seconds cfg"
      and "remaining_time_of cfg' env' = remaining_time_of cfg env"
  shows "snd (chaos_interval R cfg' n' g env') = snd (chaos_interval R cfg n g env)"
  using assms by (simp add: chaos_interval_def remaining_time_of_def Let_def case_prod_beta)

lemma chaos_interval_skipped_iff:
  "d_duration (fst (snd (chaos_interval R cfg n g env))) = None
     \<longleftrightarrow> remaining_time_of cfg env \<le> 0"
  by (simp add: chaos_interval_def remaining_time_of_def Let_def case_prod_beta)

lemma chaos_intervals_Cons:
  "fst (chaos_intervals R cfg n g (env # envs)) =
     fst (chaos_interval R cfg (n + 1) g env)
     @ fst (chaos_intervals R cfg (n + 1) (snd (snd (chaos_interval R cfg (n + 1) g env))) envs)"
  "snd (chaos_intervals R cfg n g (env # envs)) =
     (fst (snd (chaos_interval R cfg (n + 1) g env))
        # fst (snd (chaos_intervals R cfg (n + 1)
                      (snd (snd (chaos_interval R cfg (n + 1) g env))) envs)),
      snd (snd (chaos_intervals R cfg (n + 1)
                  (snd (snd (chaos_interval R cfg (n + 1) g env))) envs)))"
  by (simp_all add: case_prod_beta)

lemma chaos_intervals_draws_cong:
  assumes "interval_seconds cfg' = interval_seconds cfg"
      and "map (remaining_time_of cfg') envs' = map (remaining_time_of cfg) envs"
  shows "snd (chaos_intervals R cfg' n' g envs') = snd (chaos_intervals R cfg n g envs)"
  using assms(2)
proof (induction envs arbitrary: envs' n n' g)
  case Nil
  then show ?case by simp
next
  case (Cons env envs)
  then obtain env' rest where envs': "envs' = env' # rest"
    and hd: "remaining_time_of cfg' env' = remaining_time_of cfg env"
    and tl: "map (remaining_time_of cfg') rest = map (remaining_time_of cfg) envs"
    by (cases envs') auto
  have same: "snd (chaos_interval R cfg' (n' + 1) g env') = snd (chaos_interval R cfg (n + 1) g env)"
    using assms(1) hd by (rule chaos_interval_draws_cong)
  show ?case
    using Cons.IH [OF tl, of "n' + 1" "snd (snd (chaos_interval R cfg (n + 1) g env))" "n + 1"]
    by (simp only: envs' chaos_intervals_Cons same)
qed


text \<open>Whatever the clock shows, the duration is at most the seconds it leaves.\<close>

lemma chaos_interval_duration_le_remaining:
  assumes "rng_ok R" "d_duration (fst (snd (chaos_interval R cfg n g env))) = Some dur"
  shows "1 \<le> dur \<and> dur \<le> remaining_time_of cfg env"
proof -
  define g2 where "g2 = snd (get_random_flag_variant R
      (snd (randint R g 0 (max 0 (interval_seconds cfg - 1)))))"
  have "d_duration (fst (snd (chaos_interval R cfg n g env))) =
      (if remaining_time_of cfg env \<le> 0 then None
       else Some (fst (randint R g2 1 (max 1 (remaining_time_of cfg env)))))"
    by (simp add: chaos_interval_def remaining_time_of_def Let_def case_prod_beta g2_def)
  with assms(2) have pos: "0 < remaining_time_of cfg env"
    and dur: "dur = fst (randint R g2 1 (max 1 (remaining_time_of cfg env)))"
    by (auto split: if_splits)
  show ?thesis
    using randint_bounds [OF assms(1), of 1 "max 1 (remaining_time_of cfg env)" g2] pos
    by (simp add: dur)
qed

subsection \<open>The concrete runs\<close>

lemmas interval_eval =
  chaos_interval_def Let_def case_prod_beta lcg_offset lcg_flag_variant
  lcg_duration8 lcg_duration7 py_int_def floor_rat_numeral
  activate_hold_revert_def cs_set_flag_def build_cmd_def
  wait_for_trigger_def wait_for_interval_end_def

lemma interval_on_time:
  "chaos_interval lcg example_config n 42 env_on_time =
     ([Log (BeginInterval n 10), Log (NextTrigger 1 1001), Sleep 1,
       Log (Trigger ''kafkaQueueProblems'' ''on'' 6),
       RunProcess [''python'', ''./toggle-flags.py'', ''kafkaQueueProblems'', ''on''],
       Log (Activated ''kafkaQueueProblems'' ''on''), Sleep 6,
       Log (Revert ''kafkaQueueProblems''),
       RunProcess [''python'', ''./toggle-flags.py'', ''kafkaQueueProblems'', ''off''],
       Log (Reverted ''kafkaQueueProblems''), Log (Waiting 2), Sleep 2,
       Log (EndOfInterval n), PrintSeparator],
      \<lparr>d_offset = 1, d_fault = ''kafkaQueueProblems'', d_variant = ''on'',
         d_duration = Some 6\<rparr>,
      1668674806)"
  by (simp add: interval_eval example_config_def env_on_time_def)

lemma interval_activation_fails:
  "chaos_interval lcg example_config n 42 env_activation_fails =
     ([Log (BeginInterval n 10), Log (NextTrigger 1 1001), Sleep 1,
       Log (Trigger ''kafkaQueueProblems'' ''on'' 6),
       RunProcess [''python'', ''./toggle-flags.py'', ''kafkaQueueProblems'', ''on''],
       Log (FailedToSet ''kafkaQueueProblems'' ''on'' ''./toggle-flags.py''),
       Log (StderrError ''connection refused''), Log (Waiting 8), Sleep 8,
       Log (EndOfInterval n), PrintSeparator],
      \<lparr>d_offset = 1, d_fault = ''kafkaQueueProblems'', d_variant = ''on'',
         d_duration = Some 6\<rparr>,
      1668674806)"
  by (simp add: interval_eval example_config_def env_activation_fails_def)

lemma parse_args_example:
  "parse_args lcg ''python'' 0 example_args = Inr (example_config, 42)"
  by (simp add: parse_args_def example_args_def example_config_def lcg_def parse_interval_eval)


subsection \<open>Dry-run mode\<close>

lemma cs_set_flag_dry_run:
  "dry_run cfg \<Longrightarrow>
     cs_set_flag cfg outcome f v =
       (True, [Log (DryRunWouldRun (join_spaces (build_cmd cfg f v)))])"
  by (simp add: cs_set_flag_def)

lemma cs_set_flag_exit0:
  "\<not> dry_run cfg \<Longrightarrow>
     cs_set_flag cfg (Exited 0 err) f v = (True, [RunProcess (build_cmd cfg f v)])"
  by (simp add: cs_set_flag_def)

lemma build_cmd_dry_run_update:
  "build_cmd (cfg\<lparr>dry_run := b\<rparr>) f v = build_cmd cfg f v"
  by (simp add: build_cmd_def)

lemma schedule_view_append:
  "schedule_view (xs @ ys) = schedule_view xs @ schedule_view ys"
  by (induction xs rule: schedule_view.induct) simp_all

lemma activate_hold_revert_dry_run:
  "dry_run cfg \<Longrightarrow>
     activate_hold_revert cfg out_a out_r f v d =
       [Log (DryRunWouldRun (join_spaces (build_cmd cfg f v))),
        Sleep (of_int d), Log (Revert f),
        Log (DryRunWouldRun (join_spaces (build_cmd cfg f ''off'')))]"
  by (simp add: activate_hold_revert_def cs_set_flag_dry_run)

lemma activate_hold_revert_success:
  "\<not> dry_run cfg \<Longrightarrow>
     activate_hold_revert cfg (Exited 0 e1) (Exited 0 e2) f v d =
       [RunProcess (build_cmd cfg f v), Log (Activated f v),
        Sleep (of_int d), Log (Revert f),
        RunProcess (build_cmd cfg f ''off''), Log (Reverted f)]"
  by (simp add: activate_hold_revert_def cs_set_flag_exit0)

lemma wait_views:
  "filter is_run_process (wait_for_trigger a b) = []"
  "filter is_run_process (wait_for_interval_end a b) = []"
  "filter is_failure_log (wait_for_trigger a b) = []"
  "Log (Revert x) \<notin> set (wait_for_trigger a b)"
  "Log (Revert x) \<notin> set (wait_for_interval_end a b)"
  by (simp_all add: wait_for_trigger_def wait_for_interval_end_def is_run_process_def
      is_failure_log_def Let_def)

lemma chaos_interval_dry_run_no_process:
  assumes "dry_run cfg"
  shows "filter is_run_process (fst (chaos_interval R cfg n g env)) = []"
  using assms
  by (simp add: chaos_interval_def Let_def case_prod_beta activate_hold_revert_dry_run
      wait_views is_run_process_def)

lemma chaos_interval_dry_run_schedule:
  assumes "dry_run cfg"
  shows "schedule_view (fst (chaos_interval R cfg n g env)) =
         schedule_view (fst (chaos_interval R (cfg\<lparr>dry_run := False\<rparr>) n g (all_succeed env)))"
  using assms
  by (simp add: chaos_interval_def Let_def case_prod_beta activate_hold_revert_dry_run
      activate_hold_revert_success all_succeed_def schedule_view_append
      build_cmd_dry_run_update)

lemma chaos_intervals_dry_run:
  assumes "dry_run cfg"
  shows "filter is_run_process (fst (chaos_intervals R cfg n g envs)) = []
       \<and> schedule_view (fst (chaos_intervals R cfg n g envs)) =
           schedule_view
             (fst (chaos_intervals R (cfg\<lparr>dry_run := False\<rparr>) n g (map all_succeed envs)))
       \<and> snd (chaos_intervals R cfg n g envs) =
           snd (chaos_intervals R (cfg\<lparr>dry_run := False\<rparr>) n g (map all_succeed envs))"
proof (induction envs arbitrary: n g)
  case Nil
  show ?case by simp
next
  case (Cons env envs)
  have same: "snd (chaos_interval R (cfg\<lparr>dry_run := False\<rparr>) (n + 1) g (all_succeed env)) =
              snd (chaos_interval R cfg (n + 1) g env)"
    by (rule chaos_interval_draws_cong) (simp_all add: all_succeed_def remaining_time_of_def)
  show ?case
    using Cons.IH [of "n + 1" "snd (snd (chaos_interval R cfg (n + 1) g env))"]
      chaos_interval_dry_run_no_process [OF assms, of R "n + 1" g env]
      chaos_interval_dry_run_schedule [OF assms, of R "n + 1" g env]
    by (simp only: chaos_intervals_Cons list.map same schedule_view_append filter_append) simp
qed

text \<open>
  Claim C8. In dry-run mode every call of the driver's \<open>set_flag\<close> returns success
  having only logged the command line it would have run, whatever the toggle script
  would have done. So the trace of a run of any length holds no run of the toggle
  script, its schedule (the sleeps and the setter command lines, in order) is that of
  the run with dry-run off in which every setter call succeeds, and it makes the same
  draws.
\<close>

theorem dry_run_short_circuits:
  assumes "dry_run cfg"
  shows "cs_set_flag cfg outcome f v =
           (True, [Log (DryRunWouldRun (join_spaces (build_cmd cfg f v)))])
       \<and> filter is_run_process (fst (chaos_loop R cfg g envs)) = []
       \<and> schedule_view (fst (chaos_loop R cfg g envs)) =
           schedule_view (fst (chaos_loop R (cfg\<lparr>dry_run := False\<rparr>) g (map all_succeed envs)))
       \<and> snd (chaos_loop R cfg g envs) =
           snd (chaos_loop R (cfg\<lparr>dry_run := False\<rparr>) g (map all_succeed envs))"
proof -
  define g0 where "g0 =
    (case seed cfg of
       Some s \<Rightarrow> g
     | None \<Rightarrow> rng_seed R (int (fst (rng_randbelow R g (2 ^ 31)))))"
  define ev_seed where "ev_seed =
    (case seed cfg of
       Some s \<Rightarrow> [Log (UsingSeed s)]
     | None \<Rightarrow> [Log (UsingRandomSeed (int (fst (rng_randbelow R g (2 ^ 31)))))])"
  have loop: "chaos_loop R c g es =
      ([Log (Starting (interval_seconds c))] @ (if dry_run c then [Log DryRunMode] else [])
         @ ev_seed @ fst (chaos_intervals R c 0 g0 es),
       snd (chaos_intervals R c 0 g0 es))" if "seed c = seed cfg" for c es
    using that
    by (simp add: chaos_loop_def Let_def case_prod_beta g0_def ev_seed_def split: option.splits)
  have ev_seed: "filter is_run_process ev_seed = []" "schedule_view ev_seed = []"
    by (simp_all add: ev_seed_def is_run_process_def split: option.splits)
  show ?thesis
    using chaos_intervals_dry_run [OF assms, of R 0 g0 envs] assms ev_seed
    by (simp add: loop cs_set_flag_dry_run schedule_view_append is_run_process_def)
qed

lemma interval_dry_run:
  "chaos_interval lcg (example_config\<lparr>dry_run := True\<rparr>) n 42 env_activation_fails =
     ([Log (BeginInterval n 10), Log (NextTrigger 1 1001), Sleep 1,
       Log (Trigger ''kafkaQueueProblems'' ''on'' 6),
       Log (DryRunWouldRun ''python ./toggle-flags.py kafkaQueueProblems on''),
       Sleep 6, Log (Revert ''kafkaQueueProblems''),
       Log (DryRunWouldRun ''python ./toggle-flags.py kafkaQueueProblems off''),
       Log (Waiting 8), Sleep 8,
       Log (EndOfInterval n), PrintSeparator],
      \<lparr>d_offset = 1, d_fault = ''kafkaQueueProblems'', d_variant = ''on'',
         d_duration = Some 6\<rparr>,
      1668674806)"
  by (simp add: interval_eval example_config_def env_activation_fails_def)

theorem dry_run_short_circuits_witness:
  "dry_run (example_config\<lparr>dry_run := True\<rparr>)
   \<and> cs_set_flag (example_config\<lparr>dry_run := True\<rparr>) TimeoutExpired ''adFailure'' ''on'' =
       (True, [Log (DryRunWouldRun ''python ./toggle-flags.py adFailure on'')])
   \<and> filter is_run_process
         (fst (chaos_loop lcg (example_config\<lparr>dry_run := True\<rparr>) 42 [env_activation_fails]))
       = []
   \<and> schedule_view
         (fst (chaos_loop lcg (example_config\<lparr>dry_run := True\<rparr>) 42 [env_activation_fails]))
       = [Slept 1, SetterCall ''python ./toggle-flags.py kafkaQueueProblems on'', Slept 6,
          SetterCall ''python ./toggle-flags.py kafkaQueueProblems off'', Slept 8]"
proof -
  have dry: "dry_run (example_config\<lparr>dry_run := True\<rparr>)" by simp
  have cfg: "seed (example_config\<lparr>dry_run := True\<rparr>) = Some 42"
    "interval_seconds (example_config\<lparr>dry_run := True\<rparr>) = 10"
    by (simp_all add: example_config_def)
  have sched: "schedule_view
      (fst (chaos_loop lcg (example_config\<lparr>dry_run := True\<rparr>) 42 [env_activation_fails]))
    = [Slept 1, SetterCall ''python ./toggle-flags.py kafkaQueueProblems on'', Slept 6,
       SetterCall ''python ./toggle-flags.py kafkaQueueProblems off'', Slept 8]"
    by (simp add: chaos_loop_def cfg interval_dry_run case_prod_beta)
  have cmd: "join_spaces (build_cmd (example_config\<lparr>dry_run := True\<rparr>) ''adFailure'' ''on'')
    = ''python ./toggle-flags.py adFailure on''"
    by (simp add: build_cmd_def example_config_def)
  show ?thesis
    using dry_run_short_circuits [OF dry, of TimeoutExpired "''adFailure''" "''on''" lcg 42
        "[env_activation_fails]"]
    by (simp only: dry sched cmd)
qed

subsection \<open>A failed activation\<close>

lemma cs_set_flag_failed:
  assumes "\<not> fst (cs_set_flag cfg outcome f v)"
  shows "\<not> dry_run cfg"
    and "filter is_run_process (snd (cs_set_flag cfg outcome f v)) = [RunProcess (build_cmd cfg f v)]"
    and "filter is_sleep (snd (cs_set_flag cfg outcome f v)) = []"
    and "filter is_failure_log (snd (cs_set_flag cfg outcome f v)) \<noteq> []"
    and "Log (Revert x) \<notin> set (snd (cs_set_flag cfg outcome f v))"
    and "Log (EndOfInterval n) \<notin> set (snd (cs_set_flag cfg outcome f v))"
  using assms
  by (auto simp: cs_set_flag_def Let_def is_run_process_def is_sleep_def is_failure_log_def
      split: if_splits proc_outcome.splits)

lemma activate_hold_revert_failed:
  "\<not> fst (cs_set_flag cfg out_a f v) \<Longrightarrow>
     activate_hold_revert cfg out_a out_r f v d = snd (cs_set_flag cfg out_a f v)"
  by (simp add: activate_hold_revert_def case_prod_beta)

text \<open>
  Claim C2, as the code has it. In an interval whose activation call fails, the failure
  is logged, and the hold and the revert are skipped: the only run of the toggle script
  in the interval is the failed activation itself, no revert is announced, and the only
  sleeps are the wait for the trigger and the wait for the end of the interval, after
  which the interval ends as usual.
\<close>

theorem failed_activation_skips_hold_and_revert:
  assumes r: "r = chaos_interval R cfg n g env"
      and dur: "d_duration (fst (snd r)) = Some dur"
      and failed: "\<not> fst (cs_set_flag cfg (activate_outcome env)
                          (d_fault (fst (snd r))) (d_variant (fst (snd r))))"
  shows "filter is_failure_log (fst r) \<noteq> []
       \<and> filter is_run_process (fst r) =
           [RunProcess (build_cmd cfg (d_fault (fst (snd r))) (d_variant (fst (snd r))))]
       \<and> filter is_sleep (fst r) =
           filter is_sleep
             (wait_for_trigger (t_before_wait env) (t_start env + of_int (d_offset (fst (snd r))))
              @ wait_for_interval_end (t_end_check env)
                  (t_start env + of_int (interval_seconds cfg)))
       \<and> Log (Revert (d_fault (fst (snd r)))) \<notin> set (fst r)
       \<and> Log (EndOfInterval n) \<in> set (fst r)"
proof -
  define off where "off = fst (randint R g 0 (max 0 (interval_seconds cfg - 1)))"
  define g1 where "g1 = snd (randint R g 0 (max 0 (interval_seconds cfg - 1)))"
  define fv where "fv = fst (get_random_flag_variant R g1)"
  define g2 where "g2 = snd (get_random_flag_variant R g1)"
  define fd where "fd = fst (randint R g2 1 (max 1 (remaining_time_of cfg env)))"
  define ev_set where "ev_set = snd (cs_set_flag cfg (activate_outcome env) (fst fv) (snd fv))"
  have draws: "fst (snd r) =
      \<lparr>d_offset = off, d_fault = fst fv, d_variant = snd fv,
         d_duration = (if remaining_time_of cfg env \<le> 0 then None else Some fd)\<rparr>"
    by (simp add: r chaos_interval_def remaining_time_of_def Let_def case_prod_beta
        off_def g1_def fv_def g2_def fd_def)
  with dur have pos: "\<not> remaining_time_of cfg env \<le> 0"
    by (auto split: if_splits)
  have failed': "\<not> fst (cs_set_flag cfg (activate_outcome env) (fst fv) (snd fv))"
    using failed by (simp add: draws)
  have block: "activate_hold_revert cfg (activate_outcome env) (revert_outcome env)
      (fst fv) (snd fv) fd = ev_set"
    unfolding ev_set_def using failed' by (rule activate_hold_revert_failed)
  have events: "fst r =
      [Log (BeginInterval n (interval_seconds cfg)),
       Log (NextTrigger off (t_start env + of_int off))]
      @ wait_for_trigger (t_before_wait env) (t_start env + of_int off)
      @ [Log (Trigger (fst fv) (snd fv) fd)]
      @ ev_set
      @ wait_for_interval_end (t_end_check env) (t_start env + of_int (interval_seconds cfg))
      @ [Log (EndOfInterval n), PrintSeparator]"
    using pos block
    by (simp add: r chaos_interval_def remaining_time_of_def Let_def case_prod_beta
        off_def g1_def fv_def g2_def fd_def)
  note set_facts = cs_set_flag_failed [OF failed', folded ev_set_def]
  show ?thesis
    using set_facts(2-6)
    by (simp add: events draws wait_views is_failure_log_def is_run_process_def is_sleep_def)
qed

theorem failed_activation_skips_hold_and_revert_witness:
  "d_duration (fst (snd (chaos_interval lcg example_config 1 42 env_activation_fails))) = Some 6
   \<and> \<not> fst (cs_set_flag example_config (activate_outcome env_activation_fails)
               ''kafkaQueueProblems'' ''on'')
   \<and> filter is_failure_log (fst (chaos_interval lcg example_config 1 42 env_activation_fails)) =
       [Log (FailedToSet ''kafkaQueueProblems'' ''on'' ''./toggle-flags.py'')]
   \<and> filter is_run_process (fst (chaos_interval lcg example_config 1 42 env_activation_fails)) =
       [RunProcess [''python'', ''./toggle-flags.py'', ''kafkaQueueProblems'', ''on'']]
   \<and> filter is_sleep (fst (chaos_interval lcg example_config 1 42 env_activation_fails)) =
       [Sleep 1, Sleep 8]
   \<and> Log (Revert ''kafkaQueueProblems'')
       \<notin> set (fst (chaos_interval lcg example_config 1 42 env_activation_fails))"
proof -
  define r where "r = chaos_interval lcg example_config 1 42 env_activation_fails"
  have dur: "d_duration (fst (snd r)) = Some 6"
    by (simp add: r_def interval_activation_fails)
  have failed: "\<not> fst (cs_set_flag example_config (activate_outcome env_activation_fails)
                         (d_fault (fst (snd r))) (d_variant (fst (snd r))))"
    by (simp add: r_def interval_activation_fails)
       (simp add: cs_set_flag_def example_config_def env_activation_fails_def)
  show ?thesis
    using failed_activation_skips_hold_and_revert [OF r_def dur failed] dur failed
    by (simp add: r_def interval_activation_fails is_failure_log_def is_run_process_def
        is_sleep_def)
qed

text \<open>
  Claim C2, as stated, fails. In this interval the activation of kafkaQueueProblems fails
  after a duration of 6 was drawn and announced. The failure is logged, but the driver
  neither sleeps for the 6 seconds nor calls the setter with "off": it goes straight on
  to wait for the end of the interval.
\<close>

theorem failed_activation_counterexample:
  "fst (chaos_interval lcg example_config 1 42 env_activation_fails) =
     [Log (BeginInterval 1 10), Log (NextTrigger 1 1001), Sleep 1,
      Log (Trigger ''kafkaQueueProblems'' ''on'' 6),
      RunProcess [''python'', ''./toggle-flags.py'', ''kafkaQueueProblems'', ''on''],
      Log (FailedToSet ''kafkaQueueProblems'' ''on'' ''./toggle-flags.py''),
      Log (StderrError ''connection refused''), Log (Waiting 8), Sleep 8,
      Log (EndOfInterval 1), PrintSeparator]
   \<and> Sleep 6 \<notin> set (fst (chaos_interval lcg example_config 1 42 env_activation_fails))
   \<and> RunProcess (build_cmd example_config ''kafkaQueueProblems'' ''off'')
       \<notin> set (fst (chaos_interval lcg example_config 1 42 env_activation_fails))"
  by (simp add: interval_activation_fails build_cmd_def)

subsection \<open>Reproducibility\<close>

text \<open>
  For any generator, two runs from the same generator state and with the same interval
  length make the same draws as long as the clock leaves the same number of whole
  seconds in each interval; the outcomes of the setter calls, dry-run mode and the other
  clock readings play no part.
\<close>

lemma chaos_loop_draws_cong:
  assumes "interval_seconds cfg' = interval_seconds cfg" and "seed cfg' = seed cfg"
      and "map (remaining_time_of cfg') envs' = map (remaining_time_of cfg) envs"
  shows "snd (chaos_loop R cfg' g envs') = snd (chaos_loop R cfg g envs)"
proof -
  define g0 where "g0 =
    (case seed cfg of
       Some s \<Rightarrow> g
     | None \<Rightarrow> rng_seed R (int (fst (rng_randbelow R g (2 ^ 31)))))"
  have "snd (chaos_loop R c g es) = snd (chaos_intervals R c 0 g0 es)"
    if "seed c = seed cfg" for c es
    using that by (simp add: chaos_loop_def Let_def case_prod_beta g0_def split: option.splits)
  then show ?thesis
    using chaos_intervals_draws_cong [OF assms(1,3), of R 0 g0 0] assms(2) by simp
qed

text \<open>
  Claim C1. The draws are not a function of the seed and the interval length alone. The
  upper bound of the duration draw is the number of whole seconds the wall clock leaves
  in the interval. Two runs of \<open>10sec --seed 42\<close> whose first interval starts at the same
  instant draw the same offset, fault and variant; the run that reads the clock a
  millisecond after the trigger time draws its duration from \<open>[1, 8]\<close>, the run that is
  held up for a second and a half draws it from \<open>[1, 7]\<close>, and the two durations differ.
\<close>

theorem seeded_draws_depend_on_clock:
  "run_draws lcg ''python'' 0 example_args [env_on_time] =
     Inr [\<lparr>d_offset = 1, d_fault = ''kafkaQueueProblems'', d_variant = ''on'',
             d_duration = Some 6\<rparr>]
   \<and> run_draws lcg ''python'' 0 example_args [env_delayed] =
     Inr [\<lparr>d_offset = 1, d_fault = ''kafkaQueueProblems'', d_variant = ''on'',
             d_duration = Some 3\<rparr>]"
proof -
  have cfg: "seed example_config = Some 42" "interval_seconds example_config = 10"
    by (simp_all add: example_config_def)
  have delayed: "snd (chaos_interval lcg example_config n 42 env_delayed) =
      (\<lparr>d_offset = 1, d_fault = ''kafkaQueueProblems'', d_variant = ''on'',
          d_duration = Some 3\<rparr>, 1668674806)" for n
    by (simp add: interval_eval example_config_def env_delayed_def)
  show ?thesis
    by (simp add: run_draws_def run_def parse_args_example chaos_loop_def cfg
        case_prod_beta interval_on_time delayed)
qed

end
